theory Spec2Isabelle
  imports Complex_Main
begin

section \<open>Python values and built-ins used by \<^verbatim>\<open>synaptiks/touchpad.py\<close>\<close>

text \<open>
  The module is Python 2 with \<^verbatim>\<open>from __future__ import division\<close>: \<^verbatim>\<open>map\<close>
  returns a list and \<^verbatim>\<open>/\<close> is true division. The values that travel between the
  attribute layer and the device are numbers: booleans, integers and floats. A float is
  modelled by the real number it denotes; NaN, the infinities and operations that
  overflow are not modelled. The product \<^verbatim>\<open>1000 * v\<close> of a float is rounded to the nearest
  double, as on the machine, because \<^verbatim>\<open>int()\<close> truncates it and a rounding error there
  becomes a whole unit. Division and the conversions between degrees and radians are
  exact in the model, so an equation between their results reads "equal up to
  floating-point rounding" on the machine.
\<close>

datatype pyval = PyBool bool | PyInt int | PyFloat real

datatype error =
  ValueError | IndexError | AttributeError | TypeError | NoTouchpadError | XInputVersionError

text \<open>\<^verbatim>\<open>float(x)\<close>: the numeric value of a number.\<close>

fun py_float :: "pyval \<Rightarrow> real" where
  "py_float (PyBool b) = (if b then 1 else 0)"
| "py_float (PyInt i) = real_of_int i"
| "py_float (PyFloat x) = x"

text \<open>\<^verbatim>\<open>bool(x)\<close>: a number is true when it is not zero.\<close>

fun py_bool :: "pyval \<Rightarrow> bool" where
  "py_bool (PyBool b) = b"
| "py_bool (PyInt i) = (i \<noteq> 0)"
| "py_bool (PyFloat x) = (x \<noteq> 0)"

text \<open>\<^verbatim>\<open>a == b\<close> on numbers compares the numeric values (\<^verbatim>\<open>True == 1 == 1.0\<close>).\<close>

definition py_eq :: "pyval \<Rightarrow> pyval \<Rightarrow> bool" where
  "py_eq a b = (py_float a = py_float b)"

text \<open>\<^verbatim>\<open>int(x)\<close> of a float truncates towards zero.\<close>

definition py_trunc :: "real \<Rightarrow> int" where
  "py_trunc x = (if 0 \<le> x then \<lfloor>x\<rfloor> else \<lceil>x\<rceil>)"

fun py_int :: "pyval \<Rightarrow> pyval" where
  "py_int (PyBool b) = PyInt (if b then 1 else 0)"
| "py_int (PyInt i) = PyInt i"
| "py_int (PyFloat x) = PyInt (py_trunc x)"

text \<open>
  Rounding a real to the nearest double (IEEE 754 binary64, round to nearest, ties to
  even): \<open>binade x\<close> is the exponent \<open>e\<close> with \<open>2 ^ e \<le> \<bar>x\<bar> < 2 ^ (e + 1)\<close>, the doubles of
  that binade are the multiples of \<open>2 ^ (e - 52)\<close>, and below \<open>2 ^ - 1022\<close> the spacing
  stays \<open>2 ^ - 1074\<close>. Results of \<open>2 ^ 1024\<close> and more, which the machine turns into an
  infinity, are outside the model.
\<close>

definition binade :: "real \<Rightarrow> int" where
  "binade x = \<lfloor>log 2 \<bar>x\<bar>\<rfloor>"

definition round_half_even :: "real \<Rightarrow> int" where
  "round_half_even q =
     (let n = \<lfloor>q\<rfloor>; f = q - real_of_int n
      in if f < 1 / 2 then n else if 1 / 2 < f then n + 1
         else if even n then n else n + 1)"

definition round_double :: "real \<Rightarrow> real" where
  "round_double x =
     (if x = 0 then 0
      else let ulp = 2 powr (real_of_int (max (binade x) (- 1022)) - 52)
           in real_of_int (round_half_even (x / ulp)) * ulp)"

text \<open>
  \<^verbatim>\<open>k * v\<close> for an integer literal \<^verbatim>\<open>k\<close> that is exact as a double (here 1000): an
  integer unless \<^verbatim>\<open>v\<close> is a float, and then the product rounded to a double.
\<close>

fun py_mul_int :: "int \<Rightarrow> pyval \<Rightarrow> pyval" where
  "py_mul_int k (PyBool b) = PyInt (k * (if b then 1 else 0))"
| "py_mul_int k (PyInt i) = PyInt (k * i)"
| "py_mul_int k (PyFloat x) = PyFloat (round_double (real_of_int k * x))"

text \<open>\<^verbatim>\<open>v / k\<close> under true division, for a non-zero integer literal \<^verbatim>\<open>k\<close>: always a float.\<close>

definition py_truediv_int :: "pyval \<Rightarrow> int \<Rightarrow> pyval" where
  "py_truediv_int v k = PyFloat (py_float v / real_of_int k)"



text \<open>
  \<^verbatim>\<open>xs[i]\<close> and \<^verbatim>\<open>xs[i] = v\<close> on a list: a negative index counts from the end, an index
  outside the list raises \<^verbatim>\<open>IndexError\<close>.
\<close>

definition py_getitem :: "'a list \<Rightarrow> int \<Rightarrow> error + 'a" where
  "py_getitem xs i =
     (let n = int (length xs); j = (if i < 0 then i + n else i)
      in if 0 \<le> j \<and> j < n then Inr (xs ! nat j) else Inl IndexError)"

definition py_setitem :: "'a list \<Rightarrow> int \<Rightarrow> 'a \<Rightarrow> error + 'a list" where
  "py_setitem xs i v =
     (let n = int (length xs); j = (if i < 0 then i + n else i)
      in if 0 \<le> j \<and> j < n then Inr (xs[nat j := v]) else Inl IndexError)"

text \<open>\<^verbatim>\<open>xs[lo:hi]\<close> for literal bounds \<^verbatim>\<open>0 <= lo <= hi\<close>: never raises, may be short.\<close>

definition py_slice :: "nat \<Rightarrow> nat \<Rightarrow> 'a list \<Rightarrow> 'a list" where
  "py_slice lo hi xs = take (hi - lo) (drop lo xs)"

text \<open>\<^verbatim>\<open>sum(bools, start)\<close>: adds the elements to \<^verbatim>\<open>start\<close> from the left, \<^verbatim>\<open>True\<close> as 1.\<close>

definition py_sum :: "bool list \<Rightarrow> int \<Rightarrow> int" where
  "py_sum xs start = foldl (\<lambda>acc b. acc + (if b then 1 else 0)) start xs"

text \<open>\<^verbatim>\<open>all(bools)\<close>.\<close>

definition py_all :: "bool list \<Rightarrow> bool" where
  "py_all xs = list_all (\<lambda>b. b) xs"

section \<open>The input device\<close>

text \<open>
  \<^verbatim>\<open>Touchpad\<close> inherits from \<^verbatim>\<open>synaptiks.x11.input.InputDevice\<close>, which is imported and
  not part of this module. The device is the state the attribute layer acts on: every
  operation takes the device and returns a result or an exception, and the device
  afterwards. The state of a device is what it reports for each property name, its slot
  sequence (the spec's PropertySlotSequence).
\<close>

type_synonym device = "string \<Rightarrow> pyval list"

type_synonym 'a device_io = "device \<Rightarrow> (error + 'a) \<times> device"

definition returns :: "'a \<Rightarrow> 'a device_io" where
  "returns x = (\<lambda>d. (Inr x, d))"

definition raises :: "error \<Rightarrow> 'a device_io" where
  "raises e = (\<lambda>d. (Inl e, d))"

text \<open>Sequencing of two statements: an exception of the first skips the second.\<close>

definition bind_io :: "'a device_io \<Rightarrow> ('a \<Rightarrow> 'b device_io) \<Rightarrow> 'b device_io" where
  "bind_io m f = (\<lambda>d. case m d of (Inl e, d') \<Rightarrow> (Inl e, d') | (Inr x, d') \<Rightarrow> f x d')"

text \<open>
  Modelled from the spec: \<^verbatim>\<open>InputDevice.__getitem__\<close> (\<^verbatim>\<open>obj[property_name]\<close>), the
  spec's \<^verbatim>\<open>getProperty(device, propertyName) -> sequence<RawPropertyValue>\<close>: a fresh
  query that yields the property's slot sequence.
\<close>

definition getitem :: "string \<Rightarrow> pyval list device_io" where
  "getitem name = (\<lambda>d. (Inr (d name), d))"

text \<open>
  Modelled from the spec: \<^verbatim>\<open>InputDevice.set_int\<close>, \<^verbatim>\<open>set_byte\<close>, \<^verbatim>\<open>set_float\<close> and
  \<^verbatim>\<open>set_bool\<close>, the spec's \<^verbatim>\<open>setIntProperty/setByteProperty/setFloatProperty/setBoolProperty
  (device, propertyName, sequence<RawPropertyValue>) -> void\<close>: one setter per wire type,
  each writing the whole sequence, visible to the next query of the property.
\<close>

definition set_int :: "string \<Rightarrow> pyval list \<Rightarrow> unit device_io" where
  "set_int name values = (\<lambda>d. (Inr (), d(name := values)))"

definition set_byte :: "string \<Rightarrow> pyval list \<Rightarrow> unit device_io" where
  "set_byte name values = (\<lambda>d. (Inr (), d(name := values)))"

definition set_float :: "string \<Rightarrow> pyval list \<Rightarrow> unit device_io" where
  "set_float name values = (\<lambda>d. (Inr (), d(name := values)))"

definition set_bool :: "string \<Rightarrow> pyval list \<Rightarrow> unit device_io" where
  "set_bool name values = (\<lambda>d. (Inr (), d(name := values)))"

text \<open>
  \<^verbatim>\<open>getattr(obj, 'set_{0}'.format(property_type))\<close>: the setter of that name, or
  \<^verbatim>\<open>AttributeError\<close> when the device has no such method.
\<close>

definition getattr_set :: "string \<Rightarrow> error + (string \<Rightarrow> pyval list \<Rightarrow> unit device_io)" where
  "getattr_set property_type =
     (if property_type = ''int'' then Inr set_int
      else if property_type = ''byte'' then Inr set_byte
      else if property_type = ''float'' then Inr set_float
      else if property_type = ''bool'' then Inr set_bool
      else Inl AttributeError)"

section \<open>\<^verbatim>\<open>class device_property\<close>\<close>

record device_property =
  property_name :: string
  property_type :: string
  item :: int
  convert_from_property :: "pyval \<Rightarrow> pyval"
  convert_to_property :: "pyval \<Rightarrow> pyval"

definition PROPERTY_TYPES :: "string list" where
  "PROPERTY_TYPES = [''int'', ''byte'', ''float'', ''bool'']"

text \<open>
  \<^verbatim>\<open>device_property.__init__\<close> (the docstring argument is left out): the check of the
  type, then the assignments to the fields. The two conversion methods of the class
  return their argument; an instance may replace them afterwards.
\<close>

definition mk_property :: "string \<Rightarrow> string \<Rightarrow> int \<Rightarrow> device_property" where
  "mk_property name ptype it =
     \<lparr>property_name = name, property_type = ptype, item = it,
      convert_from_property = (\<lambda>value. value),
      convert_to_property = (\<lambda>value. value)\<rparr>"

definition device_property_init :: "string \<Rightarrow> string \<Rightarrow> int \<Rightarrow> error + device_property" where
  "device_property_init name ptype it =
     (if ptype \<notin> set PROPERTY_TYPES then Inl ValueError
      else Inr (mk_property name ptype it))"

text \<open>\<^verbatim>\<open>device_property.__get__\<close> on an instance (\<^verbatim>\<open>obj\<close> is not \<^verbatim>\<open>None\<close>).\<close>

definition device_property_get :: "device_property \<Rightarrow> pyval device_io" where
  "device_property_get self =
     bind_io (getitem (property_name self)) (\<lambda>values.
       let values = (if property_type self = ''bool''
                     then map (\<lambda>x. PyBool (py_bool x)) values else values)
       in case py_getitem values (item self) of
            Inl e \<Rightarrow> raises e
          | Inr x \<Rightarrow> returns (convert_from_property self x))"

text \<open>\<^verbatim>\<open>device_property.__set__\<close>.\<close>

definition device_property_set :: "device_property \<Rightarrow> pyval \<Rightarrow> unit device_io" where
  "device_property_set self value =
     bind_io (getitem (property_name self)) (\<lambda>values.
       case py_setitem values (item self) (convert_to_property self value) of
         Inl e \<Rightarrow> raises e
       | Inr values \<Rightarrow>
           (case getattr_set (property_type self) of
              Inl e \<Rightarrow> raises e
            | Inr set_property \<Rightarrow> set_property (property_name self) values))"

section \<open>\<^verbatim>\<open>class Touchpad\<close>\<close>

subsection \<open>Finding the touchpad\<close>

text \<open>
  \<^verbatim>\<open>InputDevice.find_devices_with_property\<close> is inherited and not part of this module; it
  is a parameter here: for a display and a property name it raises or yields the devices
  in enumeration order.
\<close>

definition find_all :: "('display \<Rightarrow> string \<Rightarrow> error + 'dev list) \<Rightarrow> 'display \<Rightarrow> error + 'dev list" where
  "find_all find_devices_with_property display =
     find_devices_with_property display ''Synaptics Off''"

text \<open>
  \<^verbatim>\<open>next(iterator, None)\<close>: the first element, or \<^verbatim>\<open>None\<close> when there is none.
  \<^verbatim>\<open>find_first\<close> raises \<^verbatim>\<open>NoTouchpadError\<close> on \<^verbatim>\<open>None\<close>; an exception of the
  enumeration propagates.
\<close>

definition py_next :: "'a list \<Rightarrow> 'a option" where
  "py_next xs = (case xs of [] \<Rightarrow> None | x # _ \<Rightarrow> Some x)"

definition find_first :: "('display \<Rightarrow> string \<Rightarrow> error + 'dev list) \<Rightarrow> 'display \<Rightarrow> error + 'dev" where
  "find_first find_devices_with_property display =
     (case find_all find_devices_with_property display of
        Inl e \<Rightarrow> Inl e
      | Inr devices \<Rightarrow>
          (case py_next devices of
             None \<Rightarrow> Inl NoTouchpadError
           | Some touchpad \<Rightarrow> Inr touchpad))"

subsection \<open>The declared attributes\<close>


definition move_speed_property :: "int \<Rightarrow> device_property" where
  "move_speed_property = mk_property ''Synaptics Move Speed'' ''float''"

definition minimum_speed :: device_property where
  "minimum_speed = move_speed_property 0"

definition maximum_speed :: device_property where
  "maximum_speed = move_speed_property 1"












text \<open>
  \<^verbatim>\<open>locked_drags_timeout\<close> replaces both conversions:
  \<^verbatim>\<open>convert_from_property = lambda v: v / 1000\<close> and
  \<^verbatim>\<open>convert_to_property = lambda v: int(1000 * v)\<close>.
\<close>

definition locked_drags_timeout :: device_property where
  "locked_drags_timeout =
     (mk_property ''Synaptics Locked Drags Timeout'' ''int'' 0)
       \<lparr>convert_from_property := (\<lambda>v. py_truediv_int v 1000),
        convert_to_property := (\<lambda>v. py_int (py_mul_int 1000 v))\<rparr>"

definition edge_scrolling_property :: "int \<Rightarrow> device_property" where
  "edge_scrolling_property = mk_property ''Synaptics Edge Scrolling'' ''bool''"


definition horizontal_edge_scrolling :: device_property where
  "horizontal_edge_scrolling = edge_scrolling_property 1"





definition coasting_speed :: device_property where
  "coasting_speed = mk_property ''Synaptics Coasting Speed'' ''float'' 0"








subsection \<open>The read-only properties\<close>

record PhysicalButtons =
  left :: bool
  middle :: bool
  right :: bool

text \<open>\<^verbatim>\<open>coasting\<close>: \<^verbatim>\<open>self.coasting_speed != 0\<close>.\<close>

definition coasting :: "bool device_io" where
  "coasting =
     bind_io (device_property_get coasting_speed) (\<lambda>speed.
       returns (\<not> py_eq speed (PyInt 0)))"

text \<open>\<^verbatim>\<open>capabilities\<close>: \<^verbatim>\<open>map(bool, self['Synaptics Capabilities'])\<close>.\<close>

definition capabilities :: "bool list device_io" where
  "capabilities =
     bind_io (getitem ''Synaptics Capabilities'') (\<lambda>values.
       returns (map py_bool values))"

text \<open>\<^verbatim>\<open>finger_detection\<close>: \<^verbatim>\<open>sum(self.capabilities[3:5], 1)\<close>.\<close>

definition finger_detection :: "int device_io" where
  "finger_detection =
     bind_io capabilities (\<lambda>caps.
       let finger_capabilities = py_slice 3 5 caps
       in returns (py_sum finger_capabilities 1))"

text \<open>
  \<^verbatim>\<open>buttons\<close>: \<^verbatim>\<open>PhysicalButtons(*self.capabilities[0:3])\<close>; the named tuple takes exactly
  three arguments and raises \<^verbatim>\<open>TypeError\<close> on any other number.
\<close>

definition buttons :: "PhysicalButtons device_io" where
  "buttons =
     bind_io capabilities (\<lambda>caps.
       case py_slice 0 3 caps of
         [l, m, r] \<Rightarrow> returns \<lparr>left = l, middle = m, right = r\<rparr>
       | _ \<Rightarrow> raises TypeError)"

text \<open>\<^verbatim>\<open>has_pressure_detection\<close>: \<^verbatim>\<open>self.capabilities[5]\<close>.\<close>

definition has_pressure_detection :: "bool device_io" where
  "has_pressure_detection =
     bind_io capabilities (\<lambda>caps.
       case py_getitem caps 5 of Inl e \<Rightarrow> raises e | Inr b \<Rightarrow> returns b)"

text \<open>\<^verbatim>\<open>has_finger_width_detection\<close>: \<^verbatim>\<open>self.capabilities[6]\<close>.\<close>

definition has_finger_width_detection :: "bool device_io" where
  "has_finger_width_detection =
     bind_io capabilities (\<lambda>caps.
       case py_getitem caps 6 of Inl e \<Rightarrow> raises e | Inr b \<Rightarrow> returns b)"

text \<open>\<^verbatim>\<open>has_two_finger_emulation\<close>: \<^verbatim>\<open>all(self.capabilities[5:7])\<close>.\<close>

definition has_two_finger_emulation :: "bool device_io" where
  "has_two_finger_emulation =
     bind_io capabilities (\<lambda>caps. returns (py_all (py_slice 5 7 caps)))"

section \<open>Example devices\<close>

text \<open>
  Devices and enumerations used to run the definitions on concrete inputs:
  \<open>no_properties\<close> reports the empty sequence for every property, the others report one
  property each; \<open>two_touchpads\<close> and \<open>no_touchpads\<close> are enumerations of device ids.
\<close>

definition no_properties :: device where
  "no_properties = (\<lambda>name. [])"

definition three_speeds :: device where
  "three_speeds = no_properties(''Synaptics Move Speed'' := [PyFloat 1, PyFloat 2, PyFloat 3])"

definition one_speed :: device where
  "one_speed = no_properties(''Synaptics Move Speed'' := [PyFloat 1])"

definition timeout_device :: "int \<Rightarrow> device" where
  "timeout_device ms = no_properties(''Synaptics Locked Drags Timeout'' := [PyInt ms])"

definition edge_scrolling_device :: device where
  "edge_scrolling_device =
     no_properties(''Synaptics Edge Scrolling'' := [PyInt 0, PyInt 7, PyInt 0])"

definition capabilities_device :: "bool list \<Rightarrow> device" where
  "capabilities_device bits =
     no_properties(''Synaptics Capabilities'' := map (\<lambda>b. PyInt (if b then 1 else 0)) bits)"

definition two_touchpads :: "unit \<Rightarrow> string \<Rightarrow> error + nat list" where
  "two_touchpads display name = (if name = ''Synaptics Off'' then Inr [12, 9] else Inr [])"

definition no_touchpads :: "unit \<Rightarrow> string \<Rightarrow> error + nat list" where
  "no_touchpads display name = Inr []"

section \<open>Running the descriptor\<close>

lemma device_property_get_run:
  "device_property_get self d =
     (case py_getitem (if property_type self = ''bool''
                       then map (\<lambda>x. PyBool (py_bool x)) (d (property_name self))
                       else d (property_name self)) (item self) of
        Inl e \<Rightarrow> (Inl e, d)
      | Inr x \<Rightarrow> (Inr (convert_from_property self x), d))"
  by (simp add: device_property_get_def bind_io_def getitem_def returns_def raises_def
      split: sum.splits)

lemma getattr_set_run:
  "ptype \<in> set PROPERTY_TYPES \<Longrightarrow>
     (case getattr_set ptype of Inl e \<Rightarrow> raises e | Inr set_property \<Rightarrow> set_property name vs) d
       = (Inr (), d(name := vs))"
  by (auto simp: PROPERTY_TYPES_def getattr_set_def set_int_def set_byte_def set_float_def
      set_bool_def)

lemma getattr_set_not_IndexError:
  "fst ((case getattr_set ptype of Inl e \<Rightarrow> raises e | Inr set_property \<Rightarrow> set_property name vs) d)
       \<noteq> Inl IndexError"
  by (simp add: getattr_set_def set_int_def set_byte_def set_float_def
      set_bool_def raises_def)

lemma device_property_set_run:
  "device_property_set self v d =
     (case py_setitem (d (property_name self)) (item self) (convert_to_property self v) of
        Inl e \<Rightarrow> (Inl e, d)
      | Inr vs \<Rightarrow>
          (case getattr_set (property_type self) of
             Inl e \<Rightarrow> raises e
           | Inr set_property \<Rightarrow> set_property (property_name self) vs) d)"
  by (simp add: device_property_set_def bind_io_def getitem_def raises_def
      split: sum.splits)

lemma py_getitem_in_range:
  "0 \<le> i \<Longrightarrow> i < int (length xs) \<Longrightarrow> py_getitem xs i = Inr (xs ! nat i)"
  by (simp add: py_getitem_def)

lemma py_getitem_out_of_range:
  "0 \<le> i \<Longrightarrow> int (length xs) \<le> i \<Longrightarrow> py_getitem xs i = Inl IndexError"
  by (simp add: py_getitem_def)

lemma py_setitem_in_range:
  "0 \<le> i \<Longrightarrow> i < int (length xs) \<Longrightarrow> py_setitem xs i v = Inr (xs[nat i := v])"
  by (simp add: py_setitem_def)

lemma py_setitem_out_of_range:
  "0 \<le> i \<Longrightarrow> int (length xs) \<le> i \<Longrightarrow> py_setitem xs i v = Inl IndexError"
  by (simp add: py_setitem_def)

lemma device_property_get_in_range:
  assumes "0 \<le> item self" and "item self < int (length (d (property_name self)))"
  shows "device_property_get self d =
    (Inr (convert_from_property self
       (if property_type self = ''bool''
        then PyBool (py_bool (d (property_name self) ! nat (item self)))
        else d (property_name self) ! nat (item self))), d)"
  using assms by (simp add: device_property_get_run py_getitem_in_range)

lemma device_property_set_in_range:
  assumes "0 \<le> item self" and "item self < int (length (d (property_name self)))"
    and "property_type self \<in> set PROPERTY_TYPES"
  shows "device_property_set self v d =
    (Inr (), d(property_name self :=
                 (d (property_name self))[nat (item self) := convert_to_property self v]))"
  using assms by (simp add: device_property_set_run py_setitem_in_range getattr_set_run)


lemma mk_property_simps:
  "property_name (mk_property name ptype it) = name"
  "property_type (mk_property name ptype it) = ptype"
  "item (mk_property name ptype it) = it"
  "convert_from_property (mk_property name ptype it) = (\<lambda>value. value)"
  "convert_to_property (mk_property name ptype it) = (\<lambda>value. value)"
  by (simp_all add: mk_property_def)





lemma py_int_truncates_towards_zero:
  "py_int (PyFloat (3 / 2)) = PyInt 1" "py_int (PyFloat (- 3 / 2)) = PyInt (- 1)"
  by (simp_all add: py_trunc_def)

lemma binade_eqI:
  assumes "2 ^ n \<le> \<bar>x\<bar>" and "\<bar>x\<bar> < 2 ^ Suc n"
  shows "binade x = int n"
proof -
  have "(0::real) < 2 ^ n" by simp
  with assms(1) have pos: "0 < \<bar>x\<bar>" by linarith
  have "(2::real) powr real_of_int (int n) \<le> \<bar>x\<bar>"
    using assms(1) by (simp add: powr_realpow)
  moreover have "\<bar>x\<bar> < (2::real) powr real_of_int (int n + 1)"
    using assms(2) by (simp add: powr_realpow powr_add)
  ultimately show ?thesis
    unfolding binade_def using pos by (simp add: floor_log_eq_powr_iff)
qed

lemma round_double_eval:
  assumes "2 ^ n \<le> \<bar>x\<bar>" and "\<bar>x\<bar> < 2 ^ Suc n" and "n \<le> 52"
  shows "round_double x = real_of_int (round_half_even (x * 2 ^ (52 - n))) / 2 ^ (52 - n)"
proof -
  have e: "binade x = int n" using assms(1,2) by (rule binade_eqI)
  have "(0::real) < 2 ^ n" by simp
  with assms(1) have "0 < \<bar>x\<bar>" by linarith
  then have nz: "x \<noteq> 0" by simp
  have "real_of_int (max (int n) (- 1022)) - 52 = - real (52 - n)"
    using assms(3) by simp
  then have "2 powr (real_of_int (max (int n) (- 1022)) - 52) = 2 powr (- real (52 - n))"
    by (rule arg_cong)
  also have "\<dots> = inverse (2 ^ (52 - n))"
    by (simp only: powr_minus powr_realpow zero_less_numeral)
  finally have u: "2 powr (real_of_int (max (int n) (- 1022)) - 52) = inverse (2 ^ (52 - n))" .
  have "round_double x =
      real_of_int (round_half_even (x / inverse (2 ^ (52 - n)))) * inverse (2 ^ (52 - n))"
    unfolding round_double_def e u Let_def using nz by (simp only: if_False)
  then show ?thesis
    by (simp only: divide_inverse inverse_inverse_eq)
qed

text \<open>
  What \<^verbatim>\<open>int(1000 * v)\<close> stores for some floats. 2.5 and 2.5009765625 and their products
  with 1000 are exact doubles. The double nearest 1.001 is \<open>2254051613498933 / 2 ^ 51\<close>;
  its product with 1000 rounds to the double just below 1001 and 1000 is stored. The
  double nearest 0.29 is \<open>5224175567749775 / 2 ^ 54\<close>; its product with 1000 rounds to
  290.
\<close>

lemma timeout_stores_2500: "py_int (py_mul_int 1000 (PyFloat (5 / 2))) = PyInt 2500"
proof -
  have r: "round_double (real_of_int 1000 * (5 / 2)) = 2500"
    by (subst round_double_eval [where n = 11]) (simp_all add: round_half_even_def)
  have m: "py_mul_int 1000 (PyFloat (5 / 2)) = PyFloat 2500"
    by (simp only: py_mul_int.simps r)
  show ?thesis
    unfolding m by (simp add: py_trunc_def)
qed


lemma timeout_stores_1000_of_1_001:
  "py_int (py_mul_int 1000 (PyFloat (2254051613498933 / 2 ^ 51))) = PyInt 1000"
proof -
  have r: "round_double (real_of_int 1000 * (2254051613498933 / 2 ^ 51))
      = 8804889115230207 / 2 ^ 43"
    by (subst round_double_eval [where n = 9]) (simp_all add: round_half_even_def)
  have m: "py_mul_int 1000 (PyFloat (2254051613498933 / 2 ^ 51)) = PyFloat (8804889115230207 / 2 ^ 43)"
    by (simp only: py_mul_int.simps r)
  show ?thesis
    unfolding m by (simp add: py_trunc_def)
qed

lemma timeout_stores_290_of_0_29:
  "py_int (py_mul_int 1000 (PyFloat (5224175567749775 / 2 ^ 54))) = PyInt 290"
proof -
  have r: "round_double (real_of_int 1000 * (5224175567749775 / 2 ^ 54)) = 290"
    by (subst round_double_eval [where n = 8]) (simp_all add: round_half_even_def)
  have m: "py_mul_int 1000 (PyFloat (5224175567749775 / 2 ^ 54)) = PyFloat 290"
    by (simp only: py_mul_int.simps r)
  show ?thesis
    unfolding m by (simp add: py_trunc_def)
qed



section \<open>Helper facts\<close>

lemma locked_drags_timeout_fields:
  "property_name locked_drags_timeout = ''Synaptics Locked Drags Timeout''"
  "property_type locked_drags_timeout = ''int''"
  "item locked_drags_timeout = 0"
  "convert_from_property locked_drags_timeout = (\<lambda>v. py_truediv_int v 1000)"
  "convert_to_property locked_drags_timeout = (\<lambda>v. py_int (py_mul_int 1000 v))"
  by (simp_all add: locked_drags_timeout_def mk_property_def)


lemma move_speed_fields:
  "property_name minimum_speed = ''Synaptics Move Speed''"
  "property_type minimum_speed = ''float''"
  "item minimum_speed = 0"
  "convert_from_property minimum_speed = (\<lambda>v. v)"
  "convert_to_property minimum_speed = (\<lambda>v. v)"
  "property_name maximum_speed = ''Synaptics Move Speed''"
  "property_type maximum_speed = ''float''"
  "item maximum_speed = 1"
  "convert_from_property maximum_speed = (\<lambda>v. v)"
  "convert_to_property maximum_speed = (\<lambda>v. v)"
  by (simp_all add: minimum_speed_def maximum_speed_def move_speed_property_def
      mk_property_simps)

lemma sibling_read_unchanged:
  assumes "0 \<le> i" and "0 \<le> j" and "j \<noteq> i"
  shows "py_getitem (map f (xs[nat i := w])) j = py_getitem (map f xs) j"
    and "py_getitem (xs[nat i := w]) j = py_getitem xs j"
  using assms by (simp_all add: py_getitem_def)

lemma mk_property_init:
  "ptype \<in> set PROPERTY_TYPES \<Longrightarrow>
     device_property_init name ptype it = Inr (mk_property name ptype it)"
  by (simp add: device_property_init_def)

lemma capabilities_run: "capabilities d = (Inr (map py_bool (d ''Synaptics Capabilities'')), d)"
  by (simp add: capabilities_def bind_io_def getitem_def returns_def)

lemma capabilities_example:
  "capabilities (capabilities_device bits) = (Inr bits, capabilities_device bits)"
  by (simp add: capabilities_run capabilities_device_def o_def map_idI)

lemma seven_elements:
  assumes "length xs = 7"
  obtains a b c d e f g where "xs = [a, b, c, d, e, f, g]"
  using assms by (auto simp: eval_nat_numeral length_Suc_conv)

lemma bind_io_keeps_device:
  assumes "\<And>d. snd (m d) = d" and "\<And>x d. snd (f x d) = d"
  shows "snd (bind_io m f d) = d"
proof (cases "m d")
  case (Pair r d')
  with assms(1) [of d] have "d' = d" by simp
  with Pair assms(2) show ?thesis
    by (cases r) (simp_all add: bind_io_def)
qed

lemma returns_keeps_device: "snd (returns x d) = d"
  by (simp add: returns_def)

lemma raises_keeps_device: "snd (raises e d) = d"
  by (simp add: raises_def)

lemma getitem_keeps_device: "snd (getitem name d) = d"
  by (simp add: getitem_def)

lemma device_property_get_keeps_device: "snd (device_property_get self d) = d"
  unfolding device_property_get_def
  by (rule bind_io_keeps_device)
     (simp_all add: getitem_keeps_device returns_keeps_device raises_keeps_device Let_def
        split: sum.splits)

lemma capabilities_keeps_device: "snd (capabilities d) = d"
  unfolding capabilities_def
  by (rule bind_io_keeps_device) (simp_all add: getitem_keeps_device returns_keeps_device)

section \<open>The claims\<close>




text \<open>
  C2. For a property whose slot sequence is longer than the attribute's slot index,
  \<^verbatim>\<open>__set__\<close> writes back the sequence it has just fetched with the one slot replaced
  by the converted value: the length and every other slot are as before, no other
  property changes, and every sibling attribute of the same property (another slot index)
  reads afterwards what it read before.
\<close>

theorem set_leaves_sibling_slots:
  assumes "0 \<le> item self"
    and "item self < int (length (d (property_name self)))"
    and "property_type self \<in> set PROPERTY_TYPES"
  shows "\<exists>d'. device_property_set self v d = (Inr (), d') \<and>
      d' (property_name self) =
        (d (property_name self))[nat (item self) := convert_to_property self v] \<and>
      length (d' (property_name self)) = length (d (property_name self)) \<and>
      (\<forall>j. j \<noteq> nat (item self) \<longrightarrow>
           d' (property_name self) ! j = d (property_name self) ! j) \<and>
      (\<forall>other. other \<noteq> property_name self \<longrightarrow> d' other = d other) \<and>
      (\<forall>sibling. property_name sibling = property_name self \<and> 0 \<le> item sibling \<and>
           item sibling \<noteq> item self \<longrightarrow>
           fst (device_property_get sibling d') = fst (device_property_get sibling d))"
proof -
  let ?n = "property_name self"
  let ?d' = "d(?n := (d ?n)[nat (item self) := convert_to_property self v])"
  have w: "device_property_set self v d = (Inr (), ?d')"
    using assms by (rule device_property_set_in_range)
  have sib: "fst (device_property_get sibling ?d') = fst (device_property_get sibling d)"
    if "property_name sibling = ?n" "0 \<le> item sibling" "item sibling \<noteq> item self"
    for sibling
    using that assms(1)
    by (simp add: device_property_get_run sibling_read_unchanged split: sum.splits)
  show ?thesis
    unfolding w using sib by simp
qed

theorem set_leaves_sibling_slots_witness:
  "\<exists>d'. device_property_set minimum_speed (PyFloat 9) three_speeds = (Inr (), d') \<and>
      d' ''Synaptics Move Speed'' = [PyFloat 9, PyFloat 2, PyFloat 3] \<and>
      fst (device_property_get maximum_speed d') = Inr (PyFloat 2) \<and>
      fst (device_property_get maximum_speed three_speeds) = Inr (PyFloat 2)"
proof -
  have a: "0 \<le> item minimum_speed"
    by (simp add: move_speed_fields)
  have b: "item minimum_speed < int (length (three_speeds (property_name minimum_speed)))"
    by (simp add: move_speed_fields three_speeds_def)
  have c: "property_type minimum_speed \<in> set PROPERTY_TYPES"
    by (simp add: move_speed_fields PROPERTY_TYPES_def)
  from set_leaves_sibling_slots
    [where self = minimum_speed and d = three_speeds and v = "PyFloat 9", OF a b c]
  obtain d' where w: "device_property_set minimum_speed (PyFloat 9) three_speeds = (Inr (), d')"
    and slots: "d' (property_name minimum_speed) =
      (three_speeds (property_name minimum_speed))
        [nat (item minimum_speed) := convert_to_property minimum_speed (PyFloat 9)]"
    and sib: "\<forall>sibling. property_name sibling = property_name minimum_speed \<and>
        0 \<le> item sibling \<and> item sibling \<noteq> item minimum_speed \<longrightarrow>
        fst (device_property_get sibling d') = fst (device_property_get sibling three_speeds)"
    by blast
  have before: "fst (device_property_get maximum_speed three_speeds) = Inr (PyFloat 2)"
    by (simp add: device_property_get_in_range move_speed_fields three_speeds_def)
  from sib have "fst (device_property_get maximum_speed d')
      = fst (device_property_get maximum_speed three_speeds)"
    by (simp add: move_speed_fields)
  with before have after: "fst (device_property_get maximum_speed d') = Inr (PyFloat 2)"
    by simp
  from slots have "d' ''Synaptics Move Speed'' = [PyFloat 9, PyFloat 2, PyFloat 3]"
    by (simp add: move_speed_fields three_speeds_def)
  with w before after show ?thesis by blast
qed

text \<open>
  C3. \<^verbatim>\<open>__get__\<close> and \<^verbatim>\<open>__set__\<close> raise \<^verbatim>\<open>IndexError\<close> (the spec's SlotIndexOutOfRange)
  exactly when the sequence the device reports for the property is not longer than the
  slot index; when it is longer, \<^verbatim>\<open>__get__\<close> returns a value and \<^verbatim>\<open>__set__\<close> of a
  constructed attribute succeeds. The slot index is non-negative, as every declared
  one is.
\<close>

theorem index_error_iff_slot_missing:
  assumes "0 \<le> item self"
  shows "(fst (device_property_get self d) = Inl IndexError \<longleftrightarrow>
            int (length (d (property_name self))) \<le> item self) \<and>
         (fst (device_property_set self v d) = Inl IndexError \<longleftrightarrow>
            int (length (d (property_name self))) \<le> item self) \<and>
         (item self < int (length (d (property_name self))) \<longrightarrow>
            (\<exists>x. device_property_get self d = (Inr x, d))) \<and>
         (item self < int (length (d (property_name self))) \<and>
          property_type self \<in> set PROPERTY_TYPES \<longrightarrow>
            (\<exists>d'. device_property_set self v d = (Inr (), d')))"
proof -
  let ?len = "int (length (d (property_name self)))"
  have g: "fst (device_property_get self d) = Inl IndexError \<longleftrightarrow> ?len \<le> item self"
  proof (cases "item self < ?len")
    case True
    with assms show ?thesis by (simp add: device_property_get_in_range)
  next
    case False
    with assms show ?thesis
      by (simp add: device_property_get_run py_getitem_out_of_range)
  qed
  have s: "fst (device_property_set self v d) = Inl IndexError \<longleftrightarrow> ?len \<le> item self"
  proof (cases "item self < ?len")
    case True
    with assms show ?thesis
      by (simp add: device_property_set_run py_setitem_in_range getattr_set_not_IndexError)
  next
    case False
    with assms show ?thesis
      by (simp add: device_property_set_run py_setitem_out_of_range)
  qed
  have g_ok: "\<exists>x. device_property_get self d = (Inr x, d)" if "item self < ?len"
    using assms that by (simp add: device_property_get_in_range)
  have s_ok: "\<exists>d'. device_property_set self v d = (Inr (), d')"
    if "item self < ?len" "property_type self \<in> set PROPERTY_TYPES"
    using assms that by (simp add: device_property_set_in_range)
  from g s g_ok s_ok show ?thesis by blast
qed

theorem index_error_iff_slot_missing_witness:
  "fst (device_property_get maximum_speed one_speed) = Inl IndexError \<and>
   fst (device_property_set maximum_speed (PyFloat 2) one_speed) = Inl IndexError \<and>
   (\<exists>x. device_property_get maximum_speed three_speeds = (Inr x, three_speeds)) \<and>
   (\<exists>d'. device_property_set maximum_speed (PyFloat 5) three_speeds = (Inr (), d'))"
  using index_error_iff_slot_missing [of maximum_speed one_speed "PyFloat 2"]
    index_error_iff_slot_missing [of maximum_speed three_speeds "PyFloat 5"]
  by (simp add: move_speed_fields PROPERTY_TYPES_def one_speed_def three_speeds_def)

text \<open>
  C4. \<^verbatim>\<open>find_all\<close> is the enumeration of the devices with the property
  \<^verbatim>\<open>Synaptics Off\<close>. When it yields no device \<^verbatim>\<open>find_first\<close> raises
  \<^verbatim>\<open>NoTouchpadError\<close> (the spec's NoTouchpadFound); when it yields one or more,
  \<^verbatim>\<open>find_first\<close> returns the first in enumeration order.
\<close>

theorem find_first_first_or_error:
  assumes "fdp display ''Synaptics Off'' = Inr devices"
  shows "find_all fdp display = Inr devices \<and>
         (devices = [] \<longrightarrow> find_first fdp display = Inl NoTouchpadError) \<and>
         (devices \<noteq> [] \<longrightarrow> find_first fdp display = Inr (hd devices))"
  using assms by (cases devices) (simp_all add: find_first_def find_all_def py_next_def)

theorem find_first_first_or_error_witness:
  "find_all two_touchpads () = Inr [12, 9] \<and> find_first two_touchpads () = Inr 12 \<and>
   find_all no_touchpads () = Inr [] \<and> find_first no_touchpads () = Inl NoTouchpadError"
  using find_first_first_or_error [of two_touchpads "()" "[12, 9]"]
    find_first_first_or_error [of no_touchpads "()" "[]"]
  by (simp add: two_touchpads_def no_touchpads_def)

text \<open>
  C5. On a device whose timeout property has a slot 0, setting
  \<^verbatim>\<open>locked_drags_timeout\<close> to 2.5 seconds leaves the integer 2500 in slot 0, and
  getting it while slot 0 holds 2500 returns 2.5.
\<close>

theorem locked_drags_timeout_seconds:
  assumes "d ''Synaptics Locked Drags Timeout'' \<noteq> []"
  shows "(\<exists>d'. device_property_set locked_drags_timeout (PyFloat (5 / 2)) d = (Inr (), d') \<and>
            d' ''Synaptics Locked Drags Timeout'' ! 0 = PyInt 2500) \<and>
         (d ''Synaptics Locked Drags Timeout'' ! 0 = PyInt 2500 \<longrightarrow>
            device_property_get locked_drags_timeout d = (Inr (PyFloat (5 / 2)), d))"
proof -
  have a: "0 \<le> item locked_drags_timeout"
    by (simp add: locked_drags_timeout_fields)
  have b: "item locked_drags_timeout < int (length (d (property_name locked_drags_timeout)))"
    using assms by (simp add: locked_drags_timeout_fields)
  have c: "property_type locked_drags_timeout \<in> set PROPERTY_TYPES"
    by (simp add: locked_drags_timeout_fields PROPERTY_TYPES_def)
  have w: "\<exists>d'. device_property_set locked_drags_timeout (PyFloat (5 / 2)) d = (Inr (), d') \<and>
            d' ''Synaptics Locked Drags Timeout'' ! 0 = PyInt 2500"
    using assms
    by (simp add: device_property_set_in_range [where self = locked_drags_timeout and d = d, OF a b c]
        locked_drags_timeout_fields timeout_stores_2500
        del: py_mul_int.simps py_int.simps)
  have r: "device_property_get locked_drags_timeout d = (Inr (PyFloat (5 / 2)), d)"
    if "d ''Synaptics Locked Drags Timeout'' ! 0 = PyInt 2500"
    using that
    by (simp add: device_property_get_in_range [where self = locked_drags_timeout and d = d, OF a b]
        locked_drags_timeout_fields py_truediv_int_def)
  from w r show ?thesis by blast
qed

theorem locked_drags_timeout_seconds_witness:
  "(\<exists>d'. device_property_set locked_drags_timeout (PyFloat (5 / 2)) (timeout_device 300)
            = (Inr (), d') \<and>
          d' ''Synaptics Locked Drags Timeout'' ! 0 = PyInt 2500) \<and>
   device_property_get locked_drags_timeout (timeout_device 2500)
     = (Inr (PyFloat (5 / 2)), timeout_device 2500)"
  using locked_drags_timeout_seconds [of "timeout_device 300"]
    locked_drags_timeout_seconds [of "timeout_device 2500"]
  by (simp add: timeout_device_def)

text \<open>
  C6. When \<^verbatim>\<open>capabilities\<close> is a sequence of seven booleans, \<^verbatim>\<open>finger_detection\<close> is
  1 plus the number of true values among the capabilities 3 and 4.
\<close>

theorem finger_detection_count:
  assumes "capabilities d = (Inr caps, d')" and "length caps = 7"
  shows "finger_detection d = (Inr (1 + int (length (filter (\<lambda>i. caps ! i) [3, 4]))), d')"
proof -
  from assms(2) obtain a b c e f g h where "caps = [a, b, c, e, f, g, h]"
    by (rule seven_elements)
  with assms(1) show ?thesis
    by (simp add: finger_detection_def bind_io_def py_slice_def py_sum_def returns_def)
qed

theorem finger_detection_count_witness:
  "finger_detection (capabilities_device [True, True, True, False, False, False, False])
     = (Inr 1, capabilities_device [True, True, True, False, False, False, False]) \<and>
   finger_detection (capabilities_device [True, True, True, True, False, False, False])
     = (Inr 2, capabilities_device [True, True, True, True, False, False, False]) \<and>
   finger_detection (capabilities_device [True, True, True, True, True, False, False])
     = (Inr 3, capabilities_device [True, True, True, True, True, False, False]) \<and>
   finger_detection (capabilities_device [True, True, True, False, True, False, False])
     = (Inr 2, capabilities_device [True, True, True, False, True, False, False])"
  using finger_detection_count [OF capabilities_example
      [of "[True, True, True, False, False, False, False]"]]
    finger_detection_count [OF capabilities_example
      [of "[True, True, True, True, False, False, False]"]]
    finger_detection_count [OF capabilities_example
      [of "[True, True, True, True, True, False, False]"]]
    finger_detection_count [OF capabilities_example
      [of "[True, True, True, False, True, False, False]"]]
  by simp

text \<open>
  C7. When \<^verbatim>\<open>capabilities\<close> is a sequence of seven booleans,
  \<^verbatim>\<open>has_two_finger_emulation\<close> is true exactly when the capabilities 5 (pressure) and
  6 (finger width) are both true.
\<close>

theorem two_finger_emulation_iff:
  assumes "capabilities d = (Inr caps, d')" and "length caps = 7"
  shows "has_two_finger_emulation d = (Inr (caps ! 5 \<and> caps ! 6), d')"
proof -
  from assms(2) obtain a b c e f g h where "caps = [a, b, c, e, f, g, h]"
    by (rule seven_elements)
  with assms(1) show ?thesis
    by (simp add: has_two_finger_emulation_def bind_io_def py_slice_def py_all_def returns_def)
qed

theorem two_finger_emulation_iff_witness:
  "has_two_finger_emulation (capabilities_device [True, False, True, False, False, True, True])
     = (Inr True, capabilities_device [True, False, True, False, False, True, True]) \<and>
   has_two_finger_emulation (capabilities_device [True, False, True, True, True, True, False])
     = (Inr False, capabilities_device [True, False, True, True, True, True, False]) \<and>
   has_two_finger_emulation (capabilities_device [True, False, True, True, True, False, True])
     = (Inr False, capabilities_device [True, False, True, True, True, False, True])"
  using two_finger_emulation_iff [OF capabilities_example
      [of "[True, False, True, False, False, True, True]"]]
    two_finger_emulation_iff [OF capabilities_example
      [of "[True, False, True, True, True, True, False]"]]
    two_finger_emulation_iff [OF capabilities_example
      [of "[True, False, True, True, True, False, True]"]]
  by simp

text \<open>
  C8. The constructor raises \<^verbatim>\<open>ValueError\<close> (the spec's InvalidWireType) exactly when
  the type is none of \<^verbatim>\<open>int\<close>, \<^verbatim>\<open>byte\<close>, \<^verbatim>\<open>float\<close>, \<^verbatim>\<open>bool\<close>; with one of the four it
  returns the attribute with the given name, type and slot index and the identity
  conversions. The constructor takes no device: it fails before any device operation.
\<close>

theorem init_rejects_unknown_type:
  "(device_property_init name ptype it = Inl ValueError \<longleftrightarrow>
      ptype \<notin> {''int'', ''byte'', ''float'', ''bool''}) \<and>
   (ptype \<in> {''int'', ''byte'', ''float'', ''bool''} \<longrightarrow>
      (\<exists>p. device_property_init name ptype it = Inr p \<and>
           property_name p = name \<and> property_type p = ptype \<and> item p = it \<and>
           convert_from_property p = (\<lambda>v. v) \<and> convert_to_property p = (\<lambda>v. v)))"
  by (simp add: device_property_init_def PROPERTY_TYPES_def mk_property_def)

theorem init_rejects_unknown_type_witness:
  "device_property_init ''Synaptics Off'' ''string'' 0 = Inl ValueError \<and>
   (\<exists>p. device_property_init ''Synaptics Off'' ''byte'' 0 = Inr p \<and>
        property_name p = ''Synaptics Off'' \<and> property_type p = ''byte'' \<and> item p = 0 \<and>
        convert_from_property p = (\<lambda>v. v) \<and> convert_to_property p = (\<lambda>v. v))"
  using init_rejects_unknown_type [of "''Synaptics Off''" "''string''" 0]
    init_rejects_unknown_type [of "''Synaptics Off''" "''byte''" 0]
  by simp

text \<open>
  C9. For an attribute of type \<^verbatim>\<open>bool\<close> whose slot exists, \<^verbatim>\<open>__get__\<close> returns the
  conversion of the boolean coercion of the raw slot value: a raw integer reads as true
  exactly when it is not zero, whatever its magnitude.
\<close>

theorem bool_get_coerces:
  assumes "property_type self = ''bool''"
    and "0 \<le> item self"
    and "item self < int (length (d (property_name self)))"
  shows "device_property_get self d =
           (Inr (convert_from_property self
                   (PyBool (py_bool (d (property_name self) ! nat (item self))))), d) \<and>
         (\<forall>n. d (property_name self) ! nat (item self) = PyInt n \<longrightarrow>
            device_property_get self d =
              (Inr (convert_from_property self (PyBool (n \<noteq> 0))), d))"
  using assms by (simp add: device_property_get_in_range)

theorem bool_get_coerces_witness:
  "device_property_get horizontal_edge_scrolling edge_scrolling_device
     = (Inr (PyBool True), edge_scrolling_device)"
proof -
  have "property_type horizontal_edge_scrolling = ''bool''"
    and "0 \<le> item horizontal_edge_scrolling"
    and "item horizontal_edge_scrolling
           < int (length (edge_scrolling_device (property_name horizontal_edge_scrolling)))"
    by (simp_all add: horizontal_edge_scrolling_def edge_scrolling_property_def
        mk_property_simps edge_scrolling_device_def)
  from bool_get_coerces
    [where self = horizontal_edge_scrolling and d = edge_scrolling_device, OF this]
  show ?thesis
    by (simp add: horizontal_edge_scrolling_def edge_scrolling_property_def
        mk_property_simps edge_scrolling_device_def)
qed

text \<open>
  C10. Every read returns the device as it found it: \<^verbatim>\<open>__get__\<close> of any attribute,
  and the read-only properties \<^verbatim>\<open>coasting\<close>, \<^verbatim>\<open>capabilities\<close>, \<^verbatim>\<open>finger_detection\<close>,
  \<^verbatim>\<open>buttons\<close>, \<^verbatim>\<open>has_pressure_detection\<close>, \<^verbatim>\<open>has_finger_width_detection\<close> and
  \<^verbatim>\<open>has_two_finger_emulation\<close>, whether they return a value or raise.
\<close>

theorem reads_leave_device_unchanged:
  "snd (device_property_get self d) = d \<and>
   snd (coasting d) = d \<and>
   snd (capabilities d) = d \<and>
   snd (finger_detection d) = d \<and>
   snd (buttons d) = d \<and>
   snd (has_pressure_detection d) = d \<and>
   snd (has_finger_width_detection d) = d \<and>
   snd (has_two_finger_emulation d) = d"
proof -
  have 1: "snd (coasting d) = d"
    unfolding coasting_def
    by (rule bind_io_keeps_device)
       (simp_all add: device_property_get_keeps_device returns_keeps_device)
  have 2: "snd (finger_detection d) = d"
    unfolding finger_detection_def
    by (rule bind_io_keeps_device)
       (simp_all add: capabilities_keeps_device returns_keeps_device)
  have 3: "snd (buttons d) = d"
    unfolding buttons_def
    by (rule bind_io_keeps_device)
       (simp_all add: capabilities_keeps_device returns_keeps_device raises_keeps_device
          split: list.splits)
  have 4: "snd (has_pressure_detection d) = d"
    unfolding has_pressure_detection_def
    by (rule bind_io_keeps_device)
       (simp_all add: capabilities_keeps_device returns_keeps_device raises_keeps_device
          split: sum.splits)
  have 5: "snd (has_finger_width_detection d) = d"
    unfolding has_finger_width_detection_def
    by (rule bind_io_keeps_device)
       (simp_all add: capabilities_keeps_device returns_keeps_device raises_keeps_device
          split: sum.splits)
  have 6: "snd (has_two_finger_emulation d) = d"
    unfolding has_two_finger_emulation_def
    by (rule bind_io_keeps_device)
       (simp_all add: capabilities_keeps_device returns_keeps_device)
  from 1 2 3 4 5 6 device_property_get_keeps_device capabilities_keeps_device
  show ?thesis by simp
qed

theorem reads_leave_device_unchanged_witness:
  "snd (device_property_get maximum_speed three_speeds) = three_speeds \<and>
   snd (coasting three_speeds) = three_speeds \<and>
   snd (capabilities three_speeds) = three_speeds \<and>
   snd (finger_detection three_speeds) = three_speeds \<and>
   snd (buttons three_speeds) = three_speeds \<and>
   snd (has_pressure_detection three_speeds) = three_speeds \<and>
   snd (has_finger_width_detection three_speeds) = three_speeds \<and>
   snd (has_two_finger_emulation three_speeds) = three_speeds"
  by (rule reads_leave_device_unchanged)

end
